theory Spec2Isabelle
  imports Complex_Main "HOL-Library.Word"
begin

section \<open>Timecourse conditioning pipeline: the embedding\<close>

text \<open>
  The functions of \<^verbatim>\<open>scripts/06.first_level/timecourse_pipeline.py\<close> that build the
  nuisance regressors and the retained-volume vector (\<^verbatim>\<open>create_motion_reg\<close>), resolve
  the regressor aliases (\<^verbatim>\<open>create_resting_workflow\<close>), prepare the call of the cleaning
  routine and pad the denoised series (\<^verbatim>\<open>denoise_data\<close>).

  Library calls are modelled by what they return on the data the script hands them:
  a pandas Series is the list of its cells, a DataFrame is the list of its named columns
  (or, once transposed and written, the list of its rows), a numpy index vector is a list
  of naturals, and an exception is the \<open>Inl\<close> branch of a sum.
\<close>

subsection \<open>Exceptions\<close>

datatype error =
    FileNotFoundError
  | EmptyDataError
  | KeyError string
  | IndexError
  | ZeroDivisionError

subsection \<open>Files, cells and tables\<close>

text \<open>
  What \<^verbatim>\<open>pd.read_csv\<close> finds at a path: no file, a file with nothing to parse (zero
  bytes), or parsed contents. Layouts that pandas cannot parse as the expected table are
  outside this model.
\<close>

datatype 'a csv_file = Absent | ZeroBytes | Contents 'a

definition read_csv :: "'a csv_file \<Rightarrow> error + 'a" where
  "read_csv f = (case f of
      Absent \<Rightarrow> Inl FileNotFoundError
    | ZeroBytes \<Rightarrow> Inl EmptyDataError
    | Contents a \<Rightarrow> Inr a)"

text \<open>A cell of the confound table: the marker \<^verbatim>\<open>n/a\<close> is read as NaN.\<close>

datatype cell = NaN | Num rat

type_synonym series = "cell list"

type_synonym dataframe = "(string \<times> series) list"

text \<open>\<^verbatim>\<open>confounds[regressor]\<close>: a missing column raises KeyError.\<close>

definition getitem :: "dataframe \<Rightarrow> string \<Rightarrow> error + series" where
  "getitem df name = (case map_of df name of
      None \<Rightarrow> Inl (KeyError name)
    | Some col \<Rightarrow> Inr col)"

definition fillna :: "rat \<Rightarrow> series \<Rightarrow> series" where
  "fillna v s = map (\<lambda>c. case c of NaN \<Rightarrow> Num v | Num x \<Rightarrow> Num x) s"

text \<open>
  \<^verbatim>\<open>s.iloc[k:]\<close> with Python's slice rule: a negative start counts from the end and is
  clipped at the first row.
\<close>

definition iloc_from :: "int \<Rightarrow> 'a list \<Rightarrow> 'a list" where
  "iloc_from k xs =
     (if 0 \<le> k then drop (nat k) xs else drop (nat (int (length xs) + k)) xs)"

subsection \<open>Reading the outlier file (lines 174--178)\<close>

text \<open>
  \<^verbatim>\<open>
  try:
      outliers = pd.read_csv(art_file, header=None)[0].astype(int)
  except EmptyDataError:
      outliers = pd.DataFrame()
  \<close>
  The first column of a file of integers is held by pandas as 64-bit values: as int64,
  or as uint64 when a value is \<open>2^63\<close> or more. \<^verbatim>\<open>.astype(int)\<close> casts to int64, which
  keeps the 64 bits and reads them as signed: a value from \<open>2^63\<close> on wraps to a negative
  index. A column is the list of its 64-bit values; numbers that fit neither type, and
  text that is no number, are outside this model.
\<close>

type_synonym int_column = "64 word list"

definition astype_int :: "int_column \<Rightarrow> int list" where
  "astype_int col = map sint col"

text \<open>
  Only EmptyDataError is caught; the empty DataFrame has \<^verbatim>\<open>np.shape(outliers)[0] == 0\<close>
  and is the empty list here.
\<close>

definition read_outliers :: "int_column csv_file \<Rightarrow> error + int list" where
  "read_outliers art_file = (case read_csv art_file of
      Inl e \<Rightarrow> (if e = EmptyDataError then Inr [] else Inl e)
    | Inr col \<Rightarrow> Inr (astype_int col))"

subsection \<open>The regressor loop (lines 180--190)\<close>

fun regressor_loop ::
  "dataframe \<Rightarrow> int \<Rightarrow> string list \<Rightarrow> series list \<Rightarrow> error + series list" where
  "regressor_loop confounds dropvols [] regressors = Inr regressors"
| "regressor_loop confounds dropvols (regressor # rest) regressors =
     (if regressor = ''framewise_displacement'' then
        (case getitem confounds regressor of
           Inl e \<Rightarrow> Inl e
         | Inr col \<Rightarrow> regressor_loop confounds dropvols rest
                        (regressors @ [iloc_from dropvols (fillna 0 col)]))
      else if regressor = ''std_dvars'' then
        (case getitem confounds regressor of
           Inl e \<Rightarrow> Inl e
         | Inr col \<Rightarrow> regressor_loop confounds dropvols rest
                        (regressors @ [iloc_from dropvols (fillna 0 col)]))
      else
        (case getitem confounds regressor of
           Inl e \<Rightarrow> Inl e
         | Inr col \<Rightarrow> regressor_loop confounds dropvols rest
                        (regressors @ [iloc_from dropvols col])))"

text \<open>
  Lines 180--193: the loop, then \<^verbatim>\<open>pd.DataFrame(regressors).transpose()\<close>. Every
  Series is cut from the same table with the same slice, so the frame has one row per
  position of the slice; it is kept as the list of its rows. With no regressor the
  frame is empty and has no row.
\<close>

definition motion_params_of :: "dataframe \<Rightarrow> int \<Rightarrow> string list \<Rightarrow> error + cell list list" where
  "motion_params_of confounds dropvols regressor_names =
     (case regressor_loop confounds dropvols regressor_names [] of
        Inl e \<Rightarrow> Inl e
      | Inr regressors \<Rightarrow> Inr (transpose regressors))"

subsection \<open>Deleting indices from a vector\<close>

text \<open>
  \<^verbatim>\<open>np.delete(arr, obj)\<close> on a one-dimensional array: every index of \<open>obj\<close> must lie in
  \<open>[-N, N)\<close>, else IndexError; a negative index counts from the end; the result keeps,
  in order, the entries whose position was not named (a boolean \<open>keep\<close> mask, as numpy
  builds it).
\<close>

definition norm_index :: "nat \<Rightarrow> int \<Rightarrow> nat" where
  "norm_index N i = nat (if i < 0 then i + int N else i)"

definition np_delete :: "'a list \<Rightarrow> int list \<Rightarrow> error + 'a list" where
  "np_delete arr obj =
     (let N = length arr in
      if \<exists>i \<in> set obj. i < - int N \<or> int N \<le> i then Inl IndexError
      else
        let keep = fold (\<lambda>i k. k[norm_index N i := False]) obj (replicate N True)
        in Inr (map fst (filter snd (zip arr keep))))"

subsection \<open>Output paths and persisted files\<close>

definition op_join :: "string \<Rightarrow> string \<Rightarrow> string" where
  "op_join a b =
     (if b \<noteq> [] \<and> hd b = CHR ''/'' then b
      else if a = [] \<or> last a = CHR ''/'' then a @ b
      else a @ ''/'' @ b)"

fun str_nat :: "nat \<Rightarrow> string" where
  "str_nat n =
     (if n < 10 then [''0123456789'' ! n]
      else str_nat (n div 10) @ [''0123456789'' ! (n mod 10)])"

text \<open>The format \<^verbatim>\<open>{:02d}\<close>: sign, digits, zero-padded to width two.\<close>

definition format_02d :: "int \<Rightarrow> string" where
  "format_02d i =
     (if i < 0 then ''-'' @ str_nat (nat (- i))
      else if i < 10 then ''0'' @ str_nat (nat i)
      else str_nat (nat i))"

definition motion_file :: "string \<Rightarrow> string \<Rightarrow> int \<Rightarrow> string" where
  "motion_file outDir sub run_id =
     op_join (op_join outDir ''regressors'')
       (''sub-'' @ sub @ ''_run-'' @ format_02d run_id @ ''_confounds.txt'')"

definition scrub_file :: "string \<Rightarrow> string \<Rightarrow> int \<Rightarrow> string" where
  "scrub_file outDir sub run_id =
     op_join (op_join outDir ''regressors'')
       (''sub-'' @ sub @ ''_run-'' @ format_02d run_id @ ''_retained_volumes.txt'')"

text \<open>
  What \<^verbatim>\<open>to_csv(..., index=False, header=False, sep='\t')\<close> leaves at a path: the rows
  of the frame, one line each. The bytes are pandas' rendering of these rows.
\<close>

datatype written = Matrix "cell list list" | IndexColumn "nat list"

type_synonym store = "string \<rightharpoonup> written"

subsection \<open>\<^verbatim>\<open>create_motion_reg\<close> (lines 164--214)\<close>

text \<open>
  \<open>confound_file\<close> and \<open>art_file\<close> stand for what is found at the two input paths,
  \<open>fs\<close> for the persisted files before the call. The function returns
  \<open>(motion_params, vol_indx, outliers)\<close> and the persisted files after the call.
  \<open>motion_params\<close> is the transposed frame, as the list of its rows.
\<close>

definition create_motion_reg ::
  "string \<Rightarrow> dataframe csv_file \<Rightarrow> int_column csv_file \<Rightarrow> string list \<Rightarrow> string list
     \<Rightarrow> int \<Rightarrow> int \<Rightarrow> string \<Rightarrow> store
     \<Rightarrow> error + ((cell list list \<times> nat list \<times> int list) \<times> store)" where
  "create_motion_reg sub confound_file art_file regressor_opts regressor_names dropvols
       run_id outDir fs =
     (case read_csv confound_file of
        Inl e \<Rightarrow> Inl e
      | Inr confounds \<Rightarrow>
     (case read_outliers art_file of
        Inl e \<Rightarrow> Inl e
      | Inr outliers \<Rightarrow>
     (case motion_params_of confounds dropvols regressor_names of
        Inl e \<Rightarrow> Inl e
      | Inr motion_params \<Rightarrow>
     (case (if ''art'' \<in> set regressor_opts \<and> length outliers \<noteq> 0
            then np_delete [0..<length motion_params] outliers
            else Inr [0..<length motion_params]) of
        Inl e \<Rightarrow> Inl e
      | Inr vol_indx \<Rightarrow>
          Inr ((motion_params, vol_indx, outliers),
               fs(motion_file outDir sub run_id \<mapsto> Matrix motion_params,
                  scrub_file outDir sub run_id \<mapsto> IndexColumn vol_indx))))))"

subsection \<open>Resolving the regressor aliases (lines 143--158)\<close>

text \<open>A value of \<^verbatim>\<open>regressor_dict\<close>: one column name or a list of them.\<close>

datatype entry = Name string | Names "string list"

definition regressor_dict :: "(string \<times> entry) list" where
  "regressor_dict =
     [(''FD'', Name ''framewise_displacement''),
      (''DVARS'', Name ''std_dvars''),
      (''aCompCor'', Names [''a_comp_cor_00'', ''a_comp_cor_01'', ''a_comp_cor_02'',
                            ''a_comp_cor_03'', ''a_comp_cor_04''])]"

text \<open>
  Storing under a key of a Python dict: a key already present keeps its place, a new
  key goes last.
\<close>

fun dict_set :: "'k \<Rightarrow> 'v \<Rightarrow> ('k \<times> 'v) list \<Rightarrow> ('k \<times> 'v) list" where
  "dict_set k v [] = [(k, v)]"
| "dict_set k v (p # d) = (if fst p = k then (k, v) # d else p # dict_set k v d)"

text \<open>
  \<^verbatim>\<open>list({r: regressor_dict[r] for r in regressor_opts if r in regressor_dict}.values())\<close>
\<close>

definition regressor_list :: "string list \<Rightarrow> entry list" where
  "regressor_list regressor_opts =
     map snd (fold (\<lambda>r d. case map_of regressor_dict r of
                             None \<Rightarrow> d
                           | Some v \<Rightarrow> dict_set r v d) regressor_opts [])"

fun flatten_loop :: "entry list \<Rightarrow> string list \<Rightarrow> string list" where
  "flatten_loop [] names = names"
| "flatten_loop (Names items # rest) names = flatten_loop rest (names @ items)"
| "flatten_loop (Name element # rest) names = flatten_loop rest (names @ [element])"

definition regressor_names_of :: "string list \<Rightarrow> string list" where
  "regressor_names_of regressor_opts = flatten_loop (regressor_list regressor_opts) []"

text \<open>
  The node \<^verbatim>\<open>regressorinfo\<close> (lines 216--232): \<^verbatim>\<open>create_motion_reg\<close> with the names
  resolved from the options of the configuration.
\<close>

definition regressorinfo ::
  "string \<Rightarrow> dataframe csv_file \<Rightarrow> int_column csv_file \<Rightarrow> string list \<Rightarrow> int \<Rightarrow> int \<Rightarrow> string
     \<Rightarrow> store \<Rightarrow> error + ((cell list list \<times> nat list \<times> int list) \<times> store)" where
  "regressorinfo sub confound_file art_file regressor_opts dropvols run_id outDir fs =
     create_motion_reg sub confound_file art_file regressor_opts
       (regressor_names_of regressor_opts) dropvols run_id outDir fs"

subsection \<open>\<^verbatim>\<open>denoise_data\<close>: the call of the cleaning routine (lines 254--282)\<close>




subsection \<open>\<^verbatim>\<open>denoise_data\<close>: padding the denoised series (lines 296--317)\<close>

text \<open>
  A volume of the padded list: a volume taken from the denoised image, or the image
  \<^verbatim>\<open>nan_img\<close> whose voxels are all NaN.
\<close>

datatype 'v img = Volume 'v | NanImg

text \<open>
  The loop over \<^verbatim>\<open>all_vols_vec\<close> with its cursor \<open>d\<close>.
  \<^verbatim>\<open>image.index_img(denoise_img, d)\<close> raises IndexError past the last volume.
\<close>

fun pad_loop ::
  "nat list \<Rightarrow> 'v list \<Rightarrow> nat list \<Rightarrow> nat \<Rightarrow> 'v img list \<Rightarrow> error + 'v img list" where
  "pad_loop vol_indx denoise_img [] d pad_imgs = Inr pad_imgs"
| "pad_loop vol_indx denoise_img (vol # rest) d pad_imgs =
     (if vol \<in> set vol_indx then
        (if d < length denoise_img
         then pad_loop vol_indx denoise_img rest (d + 1)
                (pad_imgs @ [Volume (denoise_img ! d)])
         else Inl IndexError)
      else pad_loop vol_indx denoise_img rest d (pad_imgs @ [NanImg]))"

text \<open>
  The padded series for \<open>nVols\<close> input volumes, as the list of volumes that
  \<^verbatim>\<open>image.concat_imgs\<close> stacks along the fourth axis.
\<close>

definition pad_concat :: "nat \<Rightarrow> nat list \<Rightarrow> 'v list \<Rightarrow> error + 'v img list" where
  "pad_concat nVols vol_indx denoise_img = pad_loop vol_indx denoise_img [0..<nVols] 0 []"


section \<open>Properties\<close>

subsection \<open>Deleting indices: the boolean mask and its result\<close>

lemma keep_length: "length (fold (\<lambda>i k. k[f i := False]) obj ks) = length ks"
  by (induction obj arbitrary: ks) auto

lemma keep_nth:
  "j < length ks \<Longrightarrow> fold (\<lambda>i k. k[f i := False]) obj ks ! j = (ks ! j \<and> j \<notin> f ` set obj)"
proof (induction obj arbitrary: ks)
  case Nil
  then show ?case by simp
next
  case (Cons a obj)
  have "fold (\<lambda>i k. k[f i := False]) (a # obj) ks ! j
      = fold (\<lambda>i k. k[f i := False]) obj (ks[f a := False]) ! j" by simp
  also have "\<dots> = ((ks[f a := False]) ! j \<and> j \<notin> f ` set obj)"
    using Cons.IH[of "ks[f a := False]"] Cons.prems by simp
  also have "\<dots> = (ks ! j \<and> j \<notin> f ` set (a # obj))"
    using Cons.prems by (cases "f a = j") auto
  finally show ?case .
qed

lemma select_by_mask:
  "length ks = length xs \<Longrightarrow>
   map fst (filter snd (zip xs ks)) = map (\<lambda>j. xs ! j) (filter (\<lambda>j. ks ! j) [0..<length xs])"
proof -
  assume len: "length ks = length xs"
  have "zip xs ks = map (\<lambda>j. (xs ! j, ks ! j)) [0..<length xs]"
    using len by (intro nth_equalityI) auto
  then show ?thesis
    by (simp add: filter_map comp_def)
qed

lemma filter_upt_sorted_list:
  "filter (\<lambda>j. j \<notin> S) [0..<n] = sorted_list_of_set ({0..<n} - S)"
proof (rule sorted_distinct_set_unique)
  show "sorted (filter (\<lambda>j. j \<notin> S) [0..<n])" by (simp add: sorted_wrt_filter)
  show "set (filter (\<lambda>j. j \<notin> S) [0..<n]) = set (sorted_list_of_set ({0..<n} - S))" by auto
qed auto

lemma np_delete_upt:
  assumes "\<forall>i \<in> set obj. - int n \<le> i \<and> i < int n"
  shows "np_delete [0..<n] obj = Inr (sorted_list_of_set ({0..<n} - norm_index n ` set obj))"
proof -
  let ?keep = "fold (\<lambda>i k. k[norm_index n i := False]) obj (replicate n True)"
  have len: "length ?keep = n" by (simp add: keep_length)
  have nth: "\<And>j. j < n \<Longrightarrow> ?keep ! j = (j \<notin> norm_index n ` set obj)"
    by (simp add: keep_nth)
  have "map fst (filter snd (zip [0..<n] ?keep)) = map (\<lambda>j. [0..<n] ! j) (filter (\<lambda>j. ?keep ! j) [0..<n])"
    using select_by_mask[of ?keep "[0..<n]"] len by simp
  also have "filter (\<lambda>j. ?keep ! j) [0..<n] = filter (\<lambda>j. j \<notin> norm_index n ` set obj) [0..<n]"
    by (rule filter_cong) (auto simp: nth)
  also have "map (\<lambda>j. [0..<n] ! j) \<dots> = \<dots>"
    by (rule map_idI) auto
  finally have "map fst (filter snd (zip [0..<n] ?keep)) = sorted_list_of_set ({0..<n} - norm_index n ` set obj)"
    by (simp add: filter_upt_sorted_list)
  moreover have "\<not> (\<exists>i \<in> set obj. i < - int n \<or> int n \<le> i)"
    using assms by auto
  ultimately show ?thesis
    by (simp add: np_delete_def Let_def)
qed

lemma np_delete_IndexError:
  "np_delete arr obj = Inl IndexError \<longleftrightarrow> (\<exists>i \<in> set obj. i < - int (length arr) \<or> int (length arr) \<le> i)"
  by (auto simp: np_delete_def Let_def)


lemma norm_index_nonneg: "0 \<le> i \<Longrightarrow> norm_index n i = nat i"
  by (simp add: norm_index_def)

lemma norm_index_less: "- int n \<le> i \<Longrightarrow> i < int n \<Longrightarrow> norm_index n i < n"
  by (auto simp: norm_index_def)

lemma length_np_delete_upt:
  assumes "\<forall>i \<in> set obj. - int n \<le> i \<and> i < int n"
  shows "length (sorted_list_of_set ({0..<n} - norm_index n ` set obj))
           = n - card (norm_index n ` set obj)"
proof -
  have sub: "norm_index n ` set obj \<subseteq> {0..<n}"
    using assms by (auto simp: norm_index_less)
  have "card ({0..<n} - norm_index n ` set obj) = card {0..<n} - card (norm_index n ` set obj)"
    using sub by (intro card_Diff_subset) (auto intro: finite_subset)
  then show ?thesis by simp
qed

lemma create_motion_reg_unfold:
  assumes "confound_file = Contents confounds"
    and "read_outliers art_file = Inr outliers"
    and "motion_params_of confounds dropvols regressor_names = Inr motion_params"
  shows "create_motion_reg sub confound_file art_file regressor_opts regressor_names dropvols
           run_id outDir fs =
         (case (if ''art'' \<in> set regressor_opts \<and> outliers \<noteq> []
                then np_delete [0..<length motion_params] outliers
                else Inr [0..<length motion_params]) of
            Inl e \<Rightarrow> Inl e
          | Inr vol_indx \<Rightarrow>
              Inr ((motion_params, vol_indx, outliers),
                   fs(motion_file outDir sub run_id \<mapsto> Matrix motion_params,
                      scrub_file outDir sub run_id \<mapsto> IndexColumn vol_indx)))"
  using assms by (simp add: create_motion_reg_def read_csv_def)

lemma read_outliers_simps:
  "read_outliers (Contents col) = Inr (astype_int col)"
  "read_outliers ZeroBytes = Inr []"
  "read_outliers Absent = Inl FileNotFoundError"
  by (simp_all add: read_outliers_def read_csv_def)

lemma set_astype_int: "set (astype_int col) = sint ` set col"
  by (simp add: astype_int_def)

subsection \<open>The two output paths\<close>

lemma op_join_suffix: "\<exists>p. op_join a b = p @ b"
  by (auto simp: op_join_def)

lemma suffixes_differ: "u @ ''_confounds.txt'' \<noteq> v @ ''_retained_volumes.txt''"
proof
  assume "u @ ''_confounds.txt'' = v @ ''_retained_volumes.txt''"
  then have "rev (u @ ''_confounds.txt'') = rev (v @ ''_retained_volumes.txt'')"
    by (rule arg_cong)
  then show False by simp
qed

lemma motion_file_neq_scrub_file:
  "motion_file outDir sub run_id \<noteq> scrub_file outDir sub run_id"
proof -
  obtain p where p: "motion_file outDir sub run_id
      = p @ (''sub-'' @ sub @ ''_run-'' @ format_02d run_id @ ''_confounds.txt'')"
    unfolding motion_file_def using op_join_suffix by blast
  obtain q where q: "scrub_file outDir sub run_id
      = q @ (''sub-'' @ sub @ ''_run-'' @ format_02d run_id @ ''_retained_volumes.txt'')"
    unfolding scrub_file_def using op_join_suffix by blast
  show ?thesis
    using suffixes_differ[of "p @ ''sub-'' @ sub @ ''_run-'' @ format_02d run_id"
        "q @ ''sub-'' @ sub @ ''_run-'' @ format_02d run_id"]
    unfolding p q by simp
qed

subsection \<open>Runs of \<^verbatim>\<open>create_motion_reg\<close>\<close>

lemma np_delete_Inr:
  assumes "np_delete [0..<n] obj = Inr vol_indx"
  shows "(\<forall>i \<in> set obj. - int n \<le> i \<and> i < int n)
       \<and> vol_indx = sorted_list_of_set ({0..<n} - norm_index n ` set obj)"
proof -
  have "np_delete [0..<n] obj \<noteq> Inl IndexError" using assms by simp
  then have rng: "\<forall>i \<in> set obj. - int n \<le> i \<and> i < int n"
    by (auto simp: np_delete_IndexError)
  from np_delete_upt[OF rng] assms rng show ?thesis by simp
qed

lemma create_motion_reg_Inr:
  assumes "create_motion_reg sub confound_file art_file regressor_opts regressor_names
             dropvols run_id outDir fs = Inr ((motion_params, vol_indx, outliers), st)"
  shows "\<exists>confounds. confound_file = Contents confounds
       \<and> read_outliers art_file = Inr outliers
       \<and> motion_params_of confounds dropvols regressor_names = Inr motion_params
       \<and> (if ''art'' \<in> set regressor_opts \<and> outliers \<noteq> []
           then np_delete [0..<length motion_params] outliers
           else Inr [0..<length motion_params]) = Inr vol_indx
       \<and> st = fs(motion_file outDir sub run_id \<mapsto> Matrix motion_params,
                 scrub_file outDir sub run_id \<mapsto> IndexColumn vol_indx)"
  using assms
  by (cases confound_file)
     (auto simp: create_motion_reg_def read_csv_def split: sum.splits if_splits)

lemma create_motion_reg_run:
  assumes "motion_params_of confounds dropvols regressor_names = Inr motion_params"
    and "read_outliers art_file = Inr outliers"
    and "(if ''art'' \<in> set regressor_opts \<and> outliers \<noteq> []
          then np_delete [0..<length motion_params] outliers
          else Inr [0..<length motion_params]) = Inr vol_indx"
  shows "create_motion_reg sub (Contents confounds) art_file regressor_opts regressor_names
           dropvols run_id outDir fs =
         Inr ((motion_params, vol_indx, outliers),
              fs(motion_file outDir sub run_id \<mapsto> Matrix motion_params,
                 scrub_file outDir sub run_id \<mapsto> IndexColumn vol_indx))"
  using create_motion_reg_unfold[OF refl assms(2) assms(1)] assms(3) by simp

subsection \<open>The regressor columns\<close>

lemma regressor_loop_result:
  assumes "\<forall>r \<in> set regressor_names. map_of confounds r \<noteq> None"
  shows "regressor_loop confounds dropvols regressor_names regressors =
         Inr (regressors @
              map (\<lambda>r. iloc_from dropvols
                         (if r = ''framewise_displacement'' \<or> r = ''std_dvars''
                          then fillna 0 (the (map_of confounds r))
                          else the (map_of confounds r)))
                  regressor_names)"
  using assms
proof (induction regressor_names arbitrary: regressors)
  case Nil
  then show ?case by simp
next
  case (Cons r rest)
  from Cons.prems obtain col where col: "map_of confounds r = Some col" by auto
  from Cons.prems have rest: "\<forall>r \<in> set rest. map_of confounds r \<noteq> None" by simp
  show ?case
    using col by (auto simp: getitem_def Cons.IH[OF rest])
qed

lemma fillna_no_NaN: "NaN \<notin> set (fillna v s)"
  by (auto simp: fillna_def split: cell.splits)

lemma fillna_eq: "fillna v s = map (\<lambda>c. if c = NaN then Num v else c) s"
  by (auto simp: fillna_def split: cell.splits)

text \<open>
  The number of rows of the regressor matrix, which \<^verbatim>\<open>create_motion_reg\<close> takes as the
  number of post-drop volumes (\<^verbatim>\<open>motion_params.shape[0]\<close>): with at least one
  regressor, and a table whose columns all have \<open>N\<close> cells, it is the length of the
  slice \<^verbatim>\<open>[dropvols:]\<close> of \<open>N\<close> rows; with no regressor the frame is empty and the
  count is zero.
\<close>

lemma length_iloc_from:
  "length (iloc_from k xs) =
     (if 0 \<le> k then length xs - nat k else length xs - nat (int (length xs) + k))"
  by (simp add: iloc_from_def)

lemma length_fillna: "length (fillna v s) = length s"
  by (simp add: fillna_def)

lemma max_length_uniform:
  "xss \<noteq> [] \<Longrightarrow> \<forall>xs \<in> set xss. length xs = L \<Longrightarrow> foldr (\<lambda>xs. max (length xs)) xss 0 = L"
proof (induction xss)
  case Nil
  then show ?case by simp
next
  case (Cons a xss)
  then show ?case by (cases "xss = []") auto
qed

lemma motion_params_rows:
  assumes "\<forall>c \<in> set confounds. length (snd c) = N"
    and "regressor_names \<noteq> []"
    and "\<forall>r \<in> set regressor_names. map_of confounds r \<noteq> None"
  shows "\<exists>motion_params. motion_params_of confounds dropvols regressor_names = Inr motion_params
       \<and> length motion_params = length (iloc_from dropvols [0..<N])"
proof -
  let ?col = "\<lambda>r. iloc_from dropvols
                   (if r = ''framewise_displacement'' \<or> r = ''std_dvars''
                    then fillna 0 (the (map_of confounds r))
                    else the (map_of confounds r))"
  have loop: "regressor_loop confounds dropvols regressor_names [] = Inr (map ?col regressor_names)"
    using regressor_loop_result[OF assms(3), of dropvols "[]"] by simp
  have len: "length (the (map_of confounds r)) = N" if "r \<in> set regressor_names" for r
  proof -
    from that assms(3) obtain col where col: "map_of confounds r = Some col" by auto
    then have "(r, col) \<in> set confounds" by (rule map_of_SomeD)
    with assms(1) col show ?thesis by auto
  qed
  have "\<forall>xs \<in> set (map ?col regressor_names). length xs = length (iloc_from dropvols [0..<N])"
    by (auto simp: length_iloc_from length_fillna len)
  moreover have "map ?col regressor_names \<noteq> []" using assms(2) by simp
  ultimately have "length (transpose (map ?col regressor_names)) = length (iloc_from dropvols [0..<N])"
    unfolding length_transpose by (rule max_length_uniform[rotated])
  then show ?thesis
    by (simp add: motion_params_of_def loop)
qed

lemma motion_params_no_regressor:
  "motion_params_of confounds dropvols [] = Inr []"
  by (simp add: motion_params_of_def)

lemma regressor_loop_present:
  "regressor_loop confounds dropvols regressor_names regressors = Inr result \<Longrightarrow>
   \<forall>r \<in> set regressor_names. map_of confounds r \<noteq> None"
proof (induction regressor_names arbitrary: regressors)
  case Nil
  then show ?case by simp
next
  case (Cons r rest)
  then show ?case
    by (auto simp: getitem_def split: if_splits option.splits)
qed

lemma motion_params_length:
  assumes "\<forall>c \<in> set confounds. length (snd c) = N"
    and "regressor_names \<noteq> []"
    and "motion_params_of confounds dropvols regressor_names = Inr motion_params"
  shows "length motion_params = length (iloc_from dropvols [0..<N])"
proof -
  from assms(3) obtain regressors where
    "regressor_loop confounds dropvols regressor_names [] = Inr regressors"
    by (auto simp: motion_params_of_def split: sum.splits)
  then have "\<forall>r \<in> set regressor_names. map_of confounds r \<noteq> None"
    by (rule regressor_loop_present)
  from motion_params_rows[OF assms(1,2) this, of dropvols] assms(3) show ?thesis
    by auto
qed

text \<open>
  Claim C7, as amended. When every requested column is in the confound table, the loop
  returns, for \<^verbatim>\<open>framewise_displacement\<close> and \<^verbatim>\<open>std_dvars\<close>, the column with
  every NaN replaced by zero and, for every other name, the column unchanged; both cut
  at \<open>dropvols\<close>. No check for NaN is made on the other columns: the counterexample
  is a run that returns a matrix holding a NaN, without error.
\<close>

theorem missing_value_policy:
  assumes "\<forall>r \<in> set regressor_names. map_of confounds r \<noteq> None"
  shows "regressor_loop confounds dropvols regressor_names [] =
           Inr (map (\<lambda>r. iloc_from dropvols
                        (if r = ''framewise_displacement'' \<or> r = ''std_dvars''
                         then map (\<lambda>c. if c = NaN then Num 0 else c) (the (map_of confounds r))
                         else the (map_of confounds r)))
                    regressor_names)
       \<and> motion_params_of confounds dropvols regressor_names =
           Inr (transpose
                  (map (\<lambda>r. iloc_from dropvols
                        (if r = ''framewise_displacement'' \<or> r = ''std_dvars''
                         then map (\<lambda>c. if c = NaN then Num 0 else c) (the (map_of confounds r))
                         else the (map_of confounds r)))
                    regressor_names))"
  using regressor_loop_result[OF assms, of dropvols "[]"]
  by (simp add: motion_params_of_def fillna_eq cong: if_cong)

theorem missing_value_policy_witness:
  "regressor_loop
     [(''framewise_displacement'', [NaN, Num 2, NaN]), (''a_comp_cor_00'', [Num 1, NaN, Num 3])]
     1 [''framewise_displacement'', ''a_comp_cor_00''] []
   = Inr [[Num 2, Num 0], [NaN, Num 3]]
   \<and> motion_params_of
     [(''framewise_displacement'', [NaN, Num 2, NaN]), (''a_comp_cor_00'', [Num 1, NaN, Num 3])]
     1 [''framewise_displacement'', ''a_comp_cor_00'']
   = Inr [[Num 2, NaN], [Num 0, Num 3]]"
proof -
  let ?tbl = "[(''framewise_displacement'', [NaN, Num 2, NaN]),
               (''a_comp_cor_00'', [Num 1, NaN, Num 3])]"
  have h: "\<forall>r \<in> set [''framewise_displacement'', ''a_comp_cor_00'']. map_of ?tbl r \<noteq> None"
    by simp
  have t: "transpose [[Num 2, Num 0], [NaN, Num 3]] = [[Num 2, NaN], [Num 0, Num 3]]"
    by code_simp
  show ?thesis
    using missing_value_policy[OF h, of 1]
    by (simp add: iloc_from_def t)
qed

theorem missing_value_policy_counterexample:
  "regressorinfo ''01''
     (Contents [(''a_comp_cor_00'', [NaN, Num 2]), (''a_comp_cor_01'', [Num 1, Num 2]),
                (''a_comp_cor_02'', [Num 1, Num 2]), (''a_comp_cor_03'', [Num 1, Num 2]),
                (''a_comp_cor_04'', [Num 1, Num 2])])
     ZeroBytes [''aCompCor''] 0 1 ''out'' Map.empty
   = Inr (([[NaN, Num 1, Num 1, Num 1, Num 1], [Num 2, Num 2, Num 2, Num 2, Num 2]], [0, 1], []),
          [motion_file ''out'' ''01'' 1 \<mapsto>
             Matrix [[NaN, Num 1, Num 1, Num 1, Num 1], [Num 2, Num 2, Num 2, Num 2, Num 2]],
           scrub_file ''out'' ''01'' 1 \<mapsto> IndexColumn [0, 1]])"
proof -
  have names: "regressor_names_of [''aCompCor''] =
      [''a_comp_cor_00'', ''a_comp_cor_01'', ''a_comp_cor_02'', ''a_comp_cor_03'', ''a_comp_cor_04'']"
    by code_simp
  have h2: "motion_params_of
      [(''a_comp_cor_00'', [NaN, Num 2]), (''a_comp_cor_01'', [Num 1, Num 2]),
       (''a_comp_cor_02'', [Num 1, Num 2]), (''a_comp_cor_03'', [Num 1, Num 2]),
       (''a_comp_cor_04'', [Num 1, Num 2])] 0
      [''a_comp_cor_00'', ''a_comp_cor_01'', ''a_comp_cor_02'', ''a_comp_cor_03'', ''a_comp_cor_04'']
      = Inr [[NaN, Num 1, Num 1, Num 1, Num 1], [Num 2, Num 2, Num 2, Num 2, Num 2]]"
    by code_simp
  have h3: "(if ''art'' \<in> set [''aCompCor''] \<and> [] \<noteq> ([] :: int list)
        then np_delete
               [0..<length [[NaN, Num 1, Num 1, Num 1, Num 1], [Num 2, Num 2, Num 2, Num 2, Num 2]]] []
        else Inr [0..<length [[NaN, Num 1, Num 1, Num 1, Num 1],
                              [Num 2, Num 2, Num 2, Num 2, Num 2]]]) = Inr [0, 1]"
    by code_simp
  show ?thesis
    unfolding regressorinfo_def names
    by (rule create_motion_reg_run[OF h2 _ h3]) (simp add: read_outliers_simps)
qed

subsection \<open>The retained-volume vector\<close>

text \<open>
  What holds of the retained-volume vector in terms of the regressor matrix, whose row
  count \<open>n\<close> the function takes for the number of volumes: with scrubbing requested and
  every outlier index in \<open>[0, n)\<close> it is the sorted complement of the outliers, strictly
  increasing, of length \<open>n\<close> minus the number of distinct outliers; without \<^verbatim>\<open>art\<close>
  among the options it is the full range \<open>[0, n)\<close>, whatever the outlier file lists.
  By \<open>motion_params_length\<close>, \<open>n\<close> is the number of post-drop rows of the table when at
  least one regressor column is selected.
\<close>

lemma vol_indx_sorted_complement:
  assumes "confound_file = Contents confounds"
    and "motion_params_of confounds dropvols regressor_names = Inr motion_params"
    and "read_outliers art_file = Inr outliers"
    and "''art'' \<in> set regressor_opts"
    and "\<forall>i \<in> set outliers. 0 \<le> i \<and> i < int (length motion_params)"
  shows "create_motion_reg sub confound_file art_file regressor_opts regressor_names
           dropvols run_id outDir fs =
         Inr ((motion_params,
               sorted_list_of_set ({0..<length motion_params} - nat ` set outliers), outliers),
              fs(motion_file outDir sub run_id \<mapsto> Matrix motion_params,
                 scrub_file outDir sub run_id \<mapsto> IndexColumn
                   (sorted_list_of_set ({0..<length motion_params} - nat ` set outliers))))
       \<and> sorted_wrt (<) (sorted_list_of_set ({0..<length motion_params} - nat ` set outliers))
       \<and> length (sorted_list_of_set ({0..<length motion_params} - nat ` set outliers))
           = length motion_params - card (set outliers)"
proof -
  let ?n = "length motion_params"
  have rng: "\<forall>i \<in> set outliers. - int ?n \<le> i \<and> i < int ?n"
    using assms(5) by auto
  have img: "norm_index ?n ` set outliers = nat ` set outliers"
    using assms(5) by (intro image_cong) (auto simp: norm_index_nonneg)
  have del: "np_delete [0..<?n] outliers = Inr (sorted_list_of_set ({0..<?n} - nat ` set outliers))"
    using np_delete_upt[OF rng] img by simp
  have sel: "(if ''art'' \<in> set regressor_opts \<and> outliers \<noteq> []
              then np_delete [0..<?n] outliers else Inr [0..<?n])
             = Inr (sorted_list_of_set ({0..<?n} - nat ` set outliers))"
    using del by (cases "outliers = []") (simp_all add: assms(4))
  have inj: "inj_on nat (set outliers)"
  proof (rule inj_onI)
    fix x y assume "x \<in> set outliers" "y \<in> set outliers" "nat x = nat y"
    moreover from this assms(5) have "0 \<le> x" "0 \<le> y" by auto
    ultimately show "x = y" by simp
  qed
  have "length (sorted_list_of_set ({0..<?n} - nat ` set outliers)) = ?n - card (nat ` set outliers)"
    using length_np_delete_upt[OF rng] img by simp
  then have len: "length (sorted_list_of_set ({0..<?n} - nat ` set outliers)) = ?n - card (set outliers)"
    by (simp add: card_image inj)
  have run: "create_motion_reg sub confound_file art_file regressor_opts regressor_names
               dropvols run_id outDir fs =
             Inr ((motion_params, sorted_list_of_set ({0..<?n} - nat ` set outliers), outliers),
                  fs(motion_file outDir sub run_id \<mapsto> Matrix motion_params,
                     scrub_file outDir sub run_id \<mapsto>
                       IndexColumn (sorted_list_of_set ({0..<?n} - nat ` set outliers))))"
    using create_motion_reg_unfold[OF assms(1) assms(3) assms(2)]
    by (simp add: sel)
  show ?thesis
    by (intro conjI, rule run, rule strict_sorted_list_of_set, rule len)
qed

lemma vol_indx_full_range_without_art:
  assumes "confound_file = Contents confounds"
    and "motion_params_of confounds dropvols regressor_names = Inr motion_params"
    and "read_outliers art_file = Inr outliers"
    and "''art'' \<notin> set regressor_opts"
  shows "create_motion_reg sub confound_file art_file regressor_opts regressor_names
           dropvols run_id outDir fs =
         Inr ((motion_params, [0..<length motion_params], outliers),
              fs(motion_file outDir sub run_id \<mapsto> Matrix motion_params,
                 scrub_file outDir sub run_id \<mapsto> IndexColumn [0..<length motion_params]))"
  using create_motion_reg_unfold[OF assms(1) assms(3) assms(2)]
  by (simp add: assms(4))

text \<open>
  Claim C2. With scrubbing requested and outliers inside \<open>[0, n)\<close> for a run of \<open>n\<close>
  post-drop volumes, the retained-volume vector should be the sorted complement of the
  outliers. The function takes \<open>n\<close> from the regressor matrix, so the claim fails when no
  regressor column is selected: for the options \<^verbatim>\<open>['art']\<close>, a table of three rows and
  the outlier 1, the matrix has no row, the vector to delete from is empty, and the run
  ends in IndexError instead of returning \<open>[0, 2]\<close>.
\<close>

theorem scrub_only_run_IndexError:
  "regressorinfo ''01''
     (Contents [(''framewise_displacement'', [NaN, Num 1, Num 2])]) (Contents [1])
     [''art''] 0 1 ''out'' Map.empty
   = Inl IndexError"
proof -
  have names: "regressor_names_of [''art''] = []" by code_simp
  have out: "read_outliers (Contents [1]) = Inr [1]" by code_simp
  have del: "np_delete ([] :: nat list) [1] = Inl IndexError"
    by (simp add: np_delete_def)
  show ?thesis
    unfolding regressorinfo_def names
    using create_motion_reg_unfold[OF refl out motion_params_no_regressor,
        where sub="''01''" and regressor_opts="[''art'']" and run_id=1 and outDir="''out''"
          and fs=Map.empty and dropvols=0]
    by (simp add: del)
qed

text \<open>
  Claim C8. With scrubbing not requested the retained-volume vector should be the full
  range \<open>[0, n)\<close> of the \<open>n\<close> post-drop volumes. It does not depend on the outlier list
  (\<open>vol_indx_full_range_without_art\<close>), but its length is the row count of the regressor
  matrix: for the options \<^verbatim>\<open>['no']\<close>, which select no regressor column, a table of three
  rows and the outlier 1, the run returns the empty vector instead of \<open>[0, 1, 2]\<close>.
\<close>

theorem no_regressor_run_empty_vol_indx:
  "regressorinfo ''01''
     (Contents [(''framewise_displacement'', [NaN, Num 1, Num 2])]) (Contents [1])
     [''no''] 0 1 ''out'' Map.empty
   = Inr (([], [], [1]),
          [motion_file ''out'' ''01'' 1 \<mapsto> Matrix [],
           scrub_file ''out'' ''01'' 1 \<mapsto> IndexColumn []])"
proof -
  have names: "regressor_names_of [''no''] = []" by code_simp
  have out: "read_outliers (Contents [1]) = Inr [1]" by code_simp
  have art: "''art'' \<notin> set [''no'']" by simp
  show ?thesis
    unfolding regressorinfo_def names
    using vol_indx_full_range_without_art[OF refl motion_params_no_regressor out art,
        where sub="''01''" and run_id=1 and outDir="''out''" and fs=Map.empty and dropvols=0]
    by simp
qed

text \<open>
  Claim C10. The deletion is guarded by nothing but numpy's bounds check. With scrubbing
  requested and \<open>n\<close> the row count of the regressor matrix (the post-drop rows of the
  table when a regressor column is selected): one outlier index, as cast to int64, at
  or past \<open>n\<close> makes the builder fail with IndexError instead of returning a vector; with
  every index in \<open>[0, n)\<close> it returns; and IndexError is raised exactly when some index
  lies outside \<open>[-n, n)\<close>.
\<close>

theorem outlier_index_precondition:
  assumes "confound_file = Contents confounds"
    and "\<forall>c \<in> set confounds. length (snd c) = N"
    and "motion_params_of confounds dropvols regressor_names = Inr motion_params"
    and "art_file = Contents col"
    and "''art'' \<in> set regressor_opts"
  shows "((\<exists>w \<in> set col. int (length motion_params) \<le> sint w) \<longrightarrow>
            create_motion_reg sub confound_file art_file regressor_opts regressor_names
              dropvols run_id outDir fs = Inl IndexError)
       \<and> ((\<forall>w \<in> set col. 0 \<le> sint w \<and> sint w < int (length motion_params)) \<longrightarrow>
            (\<exists>r. create_motion_reg sub confound_file art_file regressor_opts regressor_names
              dropvols run_id outDir fs = Inr r))
       \<and> (create_motion_reg sub confound_file art_file regressor_opts regressor_names
              dropvols run_id outDir fs = Inl IndexError \<longleftrightarrow>
            (\<exists>w \<in> set col. sint w < - int (length motion_params)
                           \<or> int (length motion_params) \<le> sint w))
       \<and> (regressor_names \<noteq> [] \<longrightarrow>
            length motion_params = length (iloc_from dropvols [0..<N]))"
proof -
  let ?n = "length motion_params"
  let ?outliers = "astype_int col"
  let ?run = "create_motion_reg sub confound_file art_file regressor_opts regressor_names
              dropvols run_id outDir fs"
  have out: "read_outliers art_file = Inr ?outliers"
    by (simp add: assms(4) read_outliers_simps)
  have run: "?run = (case (if ?outliers \<noteq> [] then np_delete [0..<?n] ?outliers else Inr [0..<?n]) of
            Inl e \<Rightarrow> Inl e
          | Inr vol_indx \<Rightarrow>
              Inr ((motion_params, vol_indx, ?outliers),
                   fs(motion_file outDir sub run_id \<mapsto> Matrix motion_params,
                      scrub_file outDir sub run_id \<mapsto> IndexColumn vol_indx)))"
    using create_motion_reg_unfold[OF assms(1) out assms(3)]
    by (simp add: assms(5))
  have iff: "?run = Inl IndexError \<longleftrightarrow>
      (\<exists>w \<in> set col. sint w < - int ?n \<or> int ?n \<le> sint w)"
  proof (cases "?outliers = []")
    case True
    then show ?thesis by (simp add: run astype_int_def)
  next
    case False
    have "?run = Inl IndexError \<longleftrightarrow> np_delete [0..<?n] ?outliers = Inl IndexError"
      using False by (auto simp: run np_delete_def Let_def split: sum.splits)
    then show ?thesis by (simp add: np_delete_IndexError set_astype_int)
  qed
  have ok: "(\<forall>w \<in> set col. 0 \<le> sint w \<and> sint w < int ?n) \<longrightarrow> (\<exists>r. ?run = Inr r)"
  proof
    assume a: "\<forall>w \<in> set col. 0 \<le> sint w \<and> sint w < int ?n"
    then have "\<forall>i \<in> set ?outliers. - int ?n \<le> i \<and> i < int ?n"
      by (auto simp: set_astype_int)
    from np_delete_upt[OF this] show "\<exists>r. ?run = Inr r"
      by (simp add: run)
  qed
  have rows: "regressor_names \<noteq> [] \<longrightarrow> ?n = length (iloc_from dropvols [0..<N])"
    using motion_params_length[OF assms(2) _ assms(3)] by blast
  from iff ok rows show ?thesis by blast
qed

theorem outlier_index_precondition_witness:
  "create_motion_reg ''01'' (Contents [(''std_dvars'', [NaN, Num 1, Num 2, Num 3])])
     (Contents [1, 3]) [''DVARS'', ''art''] [''std_dvars''] 1 2 ''out'' Map.empty = Inl IndexError
   \<and> (\<exists>r. create_motion_reg ''01'' (Contents [(''std_dvars'', [NaN, Num 1, Num 2, Num 3])])
     (Contents [1, 2]) [''DVARS'', ''art''] [''std_dvars''] 1 2 ''out'' Map.empty = Inr r)"
proof -
  have t: "\<forall>c \<in> set [(''std_dvars'', [NaN, Num 1, Num 2, Num 3])]. length (snd c) = 4"
    by simp
  have h2: "motion_params_of [(''std_dvars'', [NaN, Num 1, Num 2, Num 3])] 1 [''std_dvars'']
              = Inr [[Num 1], [Num 2], [Num 3]]"
    by code_simp
  have h4: "''art'' \<in> set [''DVARS'', ''art'']" by simp
  have bad: "\<exists>w \<in> set [1, 3 :: 64 word]. int (length [[Num 1], [Num 2], [Num 3]]) \<le> sint w"
    by simp
  have good: "\<forall>w \<in> set [1, 2 :: 64 word].
      0 \<le> sint w \<and> sint w < int (length [[Num 1], [Num 2], [Num 3]])"
    by simp
  show ?thesis
    using outlier_index_precondition[OF refl t h2 refl h4,
            where sub="''01''" and col="[1, 3]" and run_id=2 and outDir="''out''"
              and fs=Map.empty] bad
          outlier_index_precondition[OF refl t h2 refl h4,
            where sub="''01''" and col="[1, 2]" and run_id=2 and outDir="''out''"
              and fs=Map.empty] good
    by blast
qed

text \<open>
  The cast at work: the file value \<open>2^64 - 1\<close> is the index \<open>-1\<close>, inside \<open>[-n, n)\<close>,
  and the last volume is scrubbed.
\<close>

lemma wrapped_outlier_index_run:
  "create_motion_reg ''01'' (Contents [(''std_dvars'', [NaN, Num 1, Num 2])])
     (Contents [18446744073709551615]) [''DVARS'', ''art''] [''std_dvars''] 0 2 ''out'' Map.empty
   = Inr (([[Num 0], [Num 1], [Num 2]], [0, 1], [-1]),
          [motion_file ''out'' ''01'' 2 \<mapsto> Matrix [[Num 0], [Num 1], [Num 2]],
           scrub_file ''out'' ''01'' 2 \<mapsto> IndexColumn [0, 1]])"
proof -
  have h2: "motion_params_of [(''std_dvars'', [NaN, Num 1, Num 2])] 0 [''std_dvars'']
              = Inr [[Num 0], [Num 1], [Num 2]]"
    by code_simp
  have out: "read_outliers (Contents [18446744073709551615]) = Inr [-1]" by code_simp
  have h3: "(if ''art'' \<in> set [''DVARS'', ''art''] \<and> [-1] \<noteq> ([] :: int list)
        then np_delete [0..<length [[Num 0], [Num 1], [Num 2]]] [-1]
        else Inr [0..<length [[Num 0], [Num 1], [Num 2]]]) = Inr [0, 1]"
    by code_simp
  show ?thesis
    by (rule create_motion_reg_run[OF h2 out h3])
qed

text \<open>
  Claim C5, as amended. The regressor matrix is never scrubbed. For every run that
  returns, the persisted matrix is the returned one and its row count is the length of
  the retained-volume vector plus the number of distinct volumes scrubbed, so the two
  agree only when scrubbing is not requested or no outlier is listed; with at least one
  regressor column the matrix has one row per post-drop row of the confound table.
\<close>

theorem regressor_matrix_row_count:
  assumes "create_motion_reg sub confound_file art_file regressor_opts regressor_names
             dropvols run_id outDir fs = Inr ((motion_params, vol_indx, outliers), st)"
    and "confound_file = Contents confounds"
    and "\<forall>c \<in> set confounds. length (snd c) = N"
  shows "st (motion_file outDir sub run_id) = Some (Matrix motion_params)
       \<and> st (scrub_file outDir sub run_id) = Some (IndexColumn vol_indx)
       \<and> length motion_params = length vol_indx +
           (if ''art'' \<in> set regressor_opts
            then card (norm_index (length motion_params) ` set outliers) else 0)
       \<and> (regressor_names \<noteq> [] \<longrightarrow>
            length motion_params = length (iloc_from dropvols [0..<N]))"
proof -
  let ?n = "length motion_params"
  from create_motion_reg_Inr[OF assms(1)] assms(2) have
    mp: "motion_params_of confounds dropvols regressor_names = Inr motion_params"
    and sel: "(if ''art'' \<in> set regressor_opts \<and> outliers \<noteq> []
           then np_delete [0..<?n] outliers else Inr [0..<?n]) = Inr vol_indx"
    and st: "st = fs(motion_file outDir sub run_id \<mapsto> Matrix motion_params,
                 scrub_file outDir sub run_id \<mapsto> IndexColumn vol_indx)"
    by auto
  have files: "st (motion_file outDir sub run_id) = Some (Matrix motion_params)"
      "st (scrub_file outDir sub run_id) = Some (IndexColumn vol_indx)"
    using motion_file_neq_scrub_file[of outDir sub run_id] by (simp_all add: st)
  have rows: "?n = length vol_indx +
      (if ''art'' \<in> set regressor_opts then card (norm_index ?n ` set outliers) else 0)"
  proof (cases "''art'' \<in> set regressor_opts \<and> outliers \<noteq> []")
    case True
    with sel have del: "np_delete [0..<?n] outliers = Inr vol_indx" by simp
    from np_delete_Inr[OF del] have rng: "\<forall>i \<in> set outliers. - int ?n \<le> i \<and> i < int ?n"
      and vi: "vol_indx = sorted_list_of_set ({0..<?n} - norm_index ?n ` set outliers)"
      by simp_all
    have "norm_index ?n ` set outliers \<subseteq> {0..<?n}"
      using rng by (auto simp: norm_index_less)
    then have "card (norm_index ?n ` set outliers) \<le> ?n"
      using card_mono[of "{0..<?n}" "norm_index ?n ` set outliers"] by simp
    moreover have "length vol_indx = ?n - card (norm_index ?n ` set outliers)"
      unfolding vi by (rule length_np_delete_upt[OF rng])
    ultimately show ?thesis using True by simp
  next
    case False
    with sel have "vol_indx = [0..<?n]" by auto
    with False show ?thesis by auto
  qed
  have post: "regressor_names \<noteq> [] \<longrightarrow> ?n = length (iloc_from dropvols [0..<N])"
    using motion_params_length[OF assms(3) _ mp] by blast
  from files rows post show ?thesis by blast
qed

theorem regressor_matrix_row_count_witness:
  "create_motion_reg ''01'' (Contents [(''std_dvars'', [NaN, Num 1, Num 2, Num 3])])
     (Contents [1, 18446744073709551614]) [''DVARS'', ''art''] [''std_dvars''] 1 2 ''out''
     Map.empty
   = Inr (([[Num 1], [Num 2], [Num 3]], [0, 2], [1, -2]),
          [motion_file ''out'' ''01'' 2 \<mapsto> Matrix [[Num 1], [Num 2], [Num 3]],
           scrub_file ''out'' ''01'' 2 \<mapsto> IndexColumn [0, 2]])
   \<and> [motion_file ''out'' ''01'' 2 \<mapsto> Matrix [[Num 1], [Num 2], [Num 3]],
       scrub_file ''out'' ''01'' 2 \<mapsto> IndexColumn [0, 2]] (motion_file ''out'' ''01'' 2)
     = Some (Matrix [[Num 1], [Num 2], [Num 3]])
   \<and> length [[Num 1], [Num 2], [Num 3]] = length [0, 2 :: nat] + 1
   \<and> length [[Num 1], [Num 2], [Num 3]] = length (iloc_from 1 [0 ..< 4 :: nat])"
proof -
  have h2: "motion_params_of [(''std_dvars'', [NaN, Num 1, Num 2, Num 3])] 1 [''std_dvars'']
              = Inr [[Num 1], [Num 2], [Num 3]]"
    by code_simp
  have out: "read_outliers (Contents [1, 18446744073709551614]) = Inr [1, -2]" by code_simp
  have h3: "(if ''art'' \<in> set [''DVARS'', ''art''] \<and> [1, -2] \<noteq> ([] :: int list)
        then np_delete [0..<length [[Num 1], [Num 2], [Num 3]]] [1, -2]
        else Inr [0..<length [[Num 1], [Num 2], [Num 3]]]) = Inr [0, 2]"
    by code_simp
  have run: "create_motion_reg ''01'' (Contents [(''std_dvars'', [NaN, Num 1, Num 2, Num 3])])
     (Contents [1, 18446744073709551614]) [''DVARS'', ''art''] [''std_dvars''] 1 2 ''out''
     Map.empty
    = Inr (([[Num 1], [Num 2], [Num 3]], [0, 2], [1, -2]),
        [motion_file ''out'' ''01'' 2 \<mapsto> Matrix [[Num 1], [Num 2], [Num 3]],
         scrub_file ''out'' ''01'' 2 \<mapsto> IndexColumn [0, 2]])"
    by (rule create_motion_reg_run[OF h2 out h3])
  have t: "\<forall>c \<in> set [(''std_dvars'', [NaN, Num 1, Num 2, Num 3])]. length (snd c) = 4"
    by simp
  have c: "card (norm_index 3 ` set [1, -2]) = 1" by code_simp
  show ?thesis
    using regressor_matrix_row_count[OF run refl t] run by (simp add: c)
qed

theorem regressor_matrix_row_count_counterexample:
  "create_motion_reg ''01'' (Contents [(''std_dvars'', [NaN, Num 1, Num 2])])
     (Contents [1]) [''DVARS'', ''art''] [''std_dvars''] 0 2 ''out'' Map.empty
   = Inr (([[Num 0], [Num 1], [Num 2]], [0, 2], [1]),
          [motion_file ''out'' ''01'' 2 \<mapsto> Matrix [[Num 0], [Num 1], [Num 2]],
           scrub_file ''out'' ''01'' 2 \<mapsto> IndexColumn [0, 2]])
   \<and> length [[Num 0], [Num 1], [Num 2]] \<noteq> length [0, 2 :: nat]"
proof -
  have h2: "motion_params_of [(''std_dvars'', [NaN, Num 1, Num 2])] 0 [''std_dvars'']
              = Inr [[Num 0], [Num 1], [Num 2]]"
    by code_simp
  have out: "read_outliers (Contents [1]) = Inr [1]" by code_simp
  have h3: "(if ''art'' \<in> set [''DVARS'', ''art''] \<and> [1] \<noteq> ([] :: int list)
        then np_delete [0..<length [[Num 0], [Num 1], [Num 2]]] [1]
        else Inr [0..<length [[Num 0], [Num 1], [Num 2]]]) = Inr [0, 2]"
    by code_simp
  have run: "create_motion_reg ''01'' (Contents [(''std_dvars'', [NaN, Num 1, Num 2])])
     (Contents [1]) [''DVARS'', ''art''] [''std_dvars''] 0 2 ''out'' Map.empty
    = Inr (([[Num 0], [Num 1], [Num 2]], [0, 2], [1]),
        [motion_file ''out'' ''01'' 2 \<mapsto> Matrix [[Num 0], [Num 1], [Num 2]],
         scrub_file ''out'' ''01'' 2 \<mapsto> IndexColumn [0, 2]])"
    by (rule create_motion_reg_run[OF h2 out h3])
  show ?thesis
    unfolding run by simp
qed




subsection \<open>Regressor aliases and filter modes\<close>

lemma map_of_regressor_dict_None:
  "r \<notin> {''FD'', ''DVARS'', ''aCompCor''} \<Longrightarrow> map_of regressor_dict r = None"
  by (simp add: regressor_dict_def)

lemma regressor_list_skip:
  assumes "r \<notin> {''FD'', ''DVARS'', ''aCompCor''}"
  shows "regressor_list (xs @ r # ys) = regressor_list (xs @ ys)"
  by (simp add: regressor_list_def map_of_regressor_dict_None[OF assms])

text \<open>
  Claim C6, as amended. An option that is no key of \<^verbatim>\<open>regressor_dict\<close> raises nothing:
  it is filtered out and adds no column, and unless it is \<^verbatim>\<open>art\<close> (the scrubbing
  switch) the whole run is the run without it.
\<close>

theorem unrecognized_alias_is_skipped:
  assumes "r \<notin> {''FD'', ''DVARS'', ''aCompCor''}"
  shows "regressor_names_of (xs @ r # ys) = regressor_names_of (xs @ ys)
       \<and> (r \<noteq> ''art'' \<longrightarrow>
            regressorinfo sub confound_file art_file (xs @ r # ys) dropvols run_id outDir fs =
            regressorinfo sub confound_file art_file (xs @ ys) dropvols run_id outDir fs)"
proof -
  have names: "regressor_names_of (xs @ r # ys) = regressor_names_of (xs @ ys)"
    by (simp add: regressor_names_of_def regressor_list_skip[OF assms])
  have "regressorinfo sub confound_file art_file (xs @ r # ys) dropvols run_id outDir fs =
      regressorinfo sub confound_file art_file (xs @ ys) dropvols run_id outDir fs"
    if "r \<noteq> ''art''"
  proof -
    from that have art: "(''art'' \<in> set (xs @ r # ys)) = (''art'' \<in> set (xs @ ys))"
      by auto
    show ?thesis
      unfolding regressorinfo_def create_motion_reg_def names art by (rule refl)
  qed
  with names show ?thesis by blast
qed

theorem unrecognized_alias_is_skipped_witness:
  "regressor_names_of [''FD'', ''tCompCor'', ''DVARS''] = [''framewise_displacement'', ''std_dvars'']
   \<and> regressorinfo ''01'' (Contents [(''framewise_displacement'', [NaN, Num 1])]) ZeroBytes
        [''FD'', ''tCompCor''] 0 1 ''out'' Map.empty
     = regressorinfo ''01'' (Contents [(''framewise_displacement'', [NaN, Num 1])]) ZeroBytes
        [''FD''] 0 1 ''out'' Map.empty"
proof -
  have h: "''tCompCor'' \<notin> {''FD'', ''DVARS'', ''aCompCor''}" by simp
  have n: "regressor_names_of [''FD'', ''DVARS''] = [''framewise_displacement'', ''std_dvars'']"
    by code_simp
  show ?thesis
    using unrecognized_alias_is_skipped[OF h, where xs="[''FD'']" and ys="[''DVARS'']"]
          unrecognized_alias_is_skipped[OF h, where xs="[''FD'']" and ys="[]" and sub="''01''"
            and confound_file="Contents [(''framewise_displacement'', [NaN, Num 1])]"
            and art_file=ZeroBytes and dropvols=0 and run_id=1 and outDir="''out''"
            and fs=Map.empty]
    by (simp add: n)
qed

theorem unrecognized_alias_counterexample:
  "regressorinfo ''01'' (Contents [(''framewise_displacement'', [NaN, Num 1])]) ZeroBytes
     [''FD'', ''tCompCor''] 0 1 ''out'' Map.empty
   = Inr (([[Num 0], [Num 1]], [0, 1], []),
          [motion_file ''out'' ''01'' 1 \<mapsto> Matrix [[Num 0], [Num 1]],
           scrub_file ''out'' ''01'' 1 \<mapsto> IndexColumn [0, 1]])"
proof -
  have names: "regressor_names_of [''FD'', ''tCompCor''] = [''framewise_displacement'']"
    by code_simp
  have h2: "motion_params_of [(''framewise_displacement'', [NaN, Num 1])] 0
      [''framewise_displacement''] = Inr [[Num 0], [Num 1]]"
    by code_simp
  have h3: "(if ''art'' \<in> set [''FD'', ''tCompCor''] \<and> [] \<noteq> ([] :: int list)
        then np_delete [0..<length [[Num 0], [Num 1]]] []
        else Inr [0..<length [[Num 0], [Num 1]]]) = Inr [0, 1]"
    by code_simp
  show ?thesis
    unfolding regressorinfo_def names
    by (rule create_motion_reg_run[OF h2 _ h3]) (simp add: read_outliers_simps)
qed




subsection \<open>Padding the denoised series\<close>

lemma pad_loop_upt:
  assumes "length (filter (\<lambda>v. v \<in> set vol_indx) [0..<n]) \<le> length denoise_img"
    and "k \<le> n"
  shows "pad_loop vol_indx denoise_img [k..<n]
           (length (filter (\<lambda>v. v \<in> set vol_indx) [0..<k])) pad_imgs =
         Inr (pad_imgs @
              map (\<lambda>i. if i \<in> set vol_indx
                        then Volume (denoise_img ! length (filter (\<lambda>v. v \<in> set vol_indx) [0..<i]))
                        else NanImg) [k..<n])"
  using assms(2)
proof (induction "n - k" arbitrary: k pad_imgs)
  case 0
  then show ?case by simp
next
  case (Suc m)
  then have kn: "k < n" and m: "m = n - Suc k" and le: "Suc k \<le> n" by simp_all
  have split: "[k..<n] = k # [Suc k..<n]" using kn by (simp add: upt_conv_Cons)
  show ?case
  proof (cases "k \<in> set vol_indx")
    case True
    have "[0..<n] = [0..<k] @ k # [Suc k..<n]"
      using kn by (metis le_add_diff_inverse less_imp_le_nat split upt_add_eq_append zero_le)
    then have "length (filter (\<lambda>v. v \<in> set vol_indx) [0..<k]) < length (filter (\<lambda>v. v \<in> set vol_indx) [0..<n])"
      using True by simp
    then have d: "length (filter (\<lambda>v. v \<in> set vol_indx) [0..<k]) < length denoise_img"
      using assms(1) by simp
    have next_d: "length (filter (\<lambda>v. v \<in> set vol_indx) [0..<Suc k])
        = length (filter (\<lambda>v. v \<in> set vol_indx) [0..<k]) + 1"
      using True by simp
    show ?thesis
      using Suc.hyps(1)[OF m le, of "pad_imgs @ [Volume (denoise_img ! length (filter (\<lambda>v. v \<in> set vol_indx) [0..<k]))]"]
      unfolding split next_d using True d by simp
  next
    case False
    have next_d: "length (filter (\<lambda>v. v \<in> set vol_indx) [0..<Suc k])
        = length (filter (\<lambda>v. v \<in> set vol_indx) [0..<k])"
      using False by simp
    show ?thesis
      using Suc.hyps(1)[OF m le, of "pad_imgs @ [NanImg]"]
      unfolding split next_d using False by simp
  qed
qed

lemma pad_concat_result:
  assumes "length (filter (\<lambda>v. v \<in> set vol_indx) [0..<n]) \<le> length denoise_img"
  shows "pad_concat n vol_indx denoise_img =
         Inr (map (\<lambda>i. if i \<in> set vol_indx
                        then Volume (denoise_img ! length (filter (\<lambda>v. v \<in> set vol_indx) [0..<i]))
                        else NanImg) [0..<n])"
  using pad_loop_upt[OF assms, of 0 "[]"] by (simp add: pad_concat_def)

lemma count_members:
  assumes "distinct vol_indx" and "set vol_indx \<subseteq> {0..<n}"
  shows "length (filter (\<lambda>v. v \<in> set vol_indx) [0..<n]) = length vol_indx"
proof -
  have "set (filter (\<lambda>v. v \<in> set vol_indx) [0..<n]) = set vol_indx"
    using assms(2) by auto
  moreover have "distinct (filter (\<lambda>v. v \<in> set vol_indx) [0..<n])" by simp
  ultimately have "length (filter (\<lambda>v. v \<in> set vol_indx) [0..<n]) = card (set vol_indx)"
    by (metis distinct_card)
  then show ?thesis using assms(1) by (simp add: distinct_card)
qed

lemma members_below_nth:
  assumes "sorted_wrt (<) vol_indx" and "j < length vol_indx"
  shows "filter (\<lambda>v. v \<in> set vol_indx) [0..<vol_indx ! j] = take j vol_indx"
proof (rule sorted_distinct_set_unique)
  have s: "sorted vol_indx" and dist: "distinct vol_indx"
    using assms(1) strict_sorted_iff by auto
  show "sorted (filter (\<lambda>v. v \<in> set vol_indx) [0..<vol_indx ! j])"
    by (simp add: sorted_wrt_filter)
  show "distinct (filter (\<lambda>v. v \<in> set vol_indx) [0..<vol_indx ! j])" by simp
  show "sorted (take j vol_indx)" using s by (rule sorted_wrt_take)
  show "distinct (take j vol_indx)" using dist by simp
  show "set (filter (\<lambda>v. v \<in> set vol_indx) [0..<vol_indx ! j]) = set (take j vol_indx)"
  proof (intro set_eqI iffI)
    fix v assume "v \<in> set (filter (\<lambda>v. v \<in> set vol_indx) [0..<vol_indx ! j])"
    then have lt: "v < vol_indx ! j" and mem: "v \<in> set vol_indx" by auto
    from mem obtain i where i: "i < length vol_indx" "vol_indx ! i = v"
      by (auto simp: in_set_conv_nth)
    have "i < j"
    proof (rule ccontr)
      assume "\<not> i < j"
      then have "j \<le> i" by simp
      then have "vol_indx ! j \<le> vol_indx ! i" using s i(1) by (simp add: sorted_nth_mono)
      with lt i(2) show False by simp
    qed
    then show "v \<in> set (take j vol_indx)"
      using i assms(2) by (auto simp: in_set_conv_nth)
  next
    fix v assume "v \<in> set (take j vol_indx)"
    then obtain i where i: "i < j" "vol_indx ! i = v"
      using assms(2) by (auto simp: in_set_conv_nth)
    have "vol_indx ! i < vol_indx ! j"
      using assms i(1) by (simp add: sorted_wrt_nth_less)
    moreover have "v \<in> set vol_indx" using i assms(2) by auto
    ultimately show "v \<in> set (filter (\<lambda>v. v \<in> set vol_indx) [0..<vol_indx ! j])"
      using i(2) by simp
  qed
qed

text \<open>
  Claim C1. For a retained-volume vector that is strictly increasing and lies in
  \<open>[0, n)\<close>, and a denoised series with one volume per retained index, the padding loop
  returns a series of exactly \<open>n\<close> volumes; volume \<open>i\<close> is the inserted all-NaN image
  exactly when \<open>i\<close> is not retained; and reading the padded series at the retained
  indices, in order, gives back the denoised series, volume for volume.
\<close>

theorem gap_reconstruction_round_trip:
  assumes "sorted_wrt (<) vol_indx"
    and "set vol_indx \<subseteq> {0..<n}"
    and "length denoise_img = length vol_indx"
  shows "\<exists>padded. pad_concat n vol_indx denoise_img = Inr padded
       \<and> length padded = n
       \<and> (\<forall>i < n. padded ! i = NanImg \<longleftrightarrow> i \<notin> set vol_indx)
       \<and> map (\<lambda>i. padded ! i) vol_indx = map Volume denoise_img"
proof -
  let ?frame = "\<lambda>i. if i \<in> set vol_indx
      then Volume (denoise_img ! length (filter (\<lambda>v. v \<in> set vol_indx) [0..<i]))
      else NanImg"
  let ?padded = "map ?frame [0..<n]"
  have dist: "distinct vol_indx" using assms(1) strict_sorted_iff by auto
  have cnt: "length (filter (\<lambda>v. v \<in> set vol_indx) [0..<n]) \<le> length denoise_img"
    using count_members[OF dist assms(2)] assms(3) by simp
  have run: "pad_concat n vol_indx denoise_img = Inr ?padded"
    by (rule pad_concat_result[OF cnt])
  have len: "length ?padded = n" by simp
  have nan: "\<forall>i < n. ?padded ! i = NanImg \<longleftrightarrow> i \<notin> set vol_indx" by simp
  have sel: "map (\<lambda>i. ?padded ! i) vol_indx = map Volume denoise_img"
  proof (rule nth_equalityI)
    show "length (map (\<lambda>i. ?padded ! i) vol_indx) = length (map Volume denoise_img)"
      using assms(3) by simp
  next
    fix j assume "j < length (map (\<lambda>i. ?padded ! i) vol_indx)"
    then have j: "j < length vol_indx" by simp
    then have mem: "vol_indx ! j \<in> set vol_indx" by simp
    with assms(2) have lt: "vol_indx ! j < n" by auto
    have "?padded ! (vol_indx ! j) = Volume (denoise_img ! length (take j vol_indx))"
      using lt mem members_below_nth[OF assms(1) j] by simp
    then show "map (\<lambda>i. ?padded ! i) vol_indx ! j = map Volume denoise_img ! j"
      using j assms(3) by simp
  qed
  from run len nan sel show ?thesis by blast
qed

theorem gap_reconstruction_round_trip_witness:
  "\<exists>padded. pad_concat 5 [0, 2, 3] [''a'', ''b'', ''c''] = Inr padded
     \<and> length padded = 5
     \<and> padded = [Volume ''a'', NanImg, Volume ''b'', Volume ''c'', NanImg]
     \<and> map (\<lambda>i. padded ! i) [0, 2, 3] = map Volume [''a'', ''b'', ''c'']"
proof -
  have h1: "sorted_wrt (<) [0, 2, 3 :: nat]" by simp
  have h2: "set [0, 2, 3 :: nat] \<subseteq> {0..<5}" by simp
  have h3: "length [''a'', ''b'', ''c''] = length [0, 2, 3 :: nat]" by simp
  have v: "pad_concat 5 [0, 2, 3] [''a'', ''b'', ''c'']
      = Inr [Volume ''a'', NanImg, Volume ''b'', Volume ''c'', NanImg]"
    by code_simp
  from gap_reconstruction_round_trip[OF h1 h2 h3] v show ?thesis
    by auto
qed

end
